theory Spec2Isabelle
  imports Main "HOL-Library.Word" "HOL-Library.Monad_Syntax" "HOL-Library.Sublist" "HOL-Library.AList" "HOL-Library.Signed_Division"
begin

unbundle bit_operations_syntax

section \<open>Bytes, peer identifiers and control codes\<close>

text \<open>
  A Go \<open>[]byte\<close> and a Go \<open>string\<close> are both sequences of bytes; \<open>PeerID\<close> is a
  string type whose \<open>Bytes()\<close> and \<open>String()\<close> are the identity on that sequence.
  \<open>PeerID.Len()\<close> is \<open>byte(len(id))\<close>: the length truncated to eight bits.
\<close>

type_synonym byte = "8 word"
type_synonym bytes = "byte list"
type_synonym PeerID = "byte list"

definition bytes_of :: "string \<Rightarrow> bytes" where
  "bytes_of s = map of_char s"

definition Len :: "PeerID \<Rightarrow> byte" where
  "Len pid = of_nat (length pid)"

definition CONTROL_RELAY :: byte where "CONTROL_RELAY = 0"
definition CONTROL_NEW_PEER :: byte where "CONTROL_NEW_PEER = 1"
definition CONTROL_NEW_PEER_UDP_ADDR :: byte where "CONTROL_NEW_PEER_UDP_ADDR = 2"
definition CONTROL_UPDATE_NETWORK_SECRET :: byte where "CONTROL_UPDATE_NETWORK_SECRET = 20"

text \<open>\<open>slices.Contains\<close> and \<open>slices.Equal\<close>.\<close>

fun Contains :: "'a list \<Rightarrow> 'a \<Rightarrow> bool" where
  "Contains [] x = False"
| "Contains (y # ys) x = (if y = x then True else Contains ys x)"

fun Equal :: "'a list \<Rightarrow> 'a list \<Rightarrow> bool" where
  "Equal [] [] = True"
| "Equal (x # xs) (y # ys) = (if x = y then Equal xs ys else False)"
| "Equal _ _ = False"

section \<open>NAT types\<close>

type_synonym NATType = string

definition Unknown :: NATType where "Unknown = ''''"
definition Hard :: NATType where "Hard = ''hard''"
definition Easy :: NATType where "Easy = ''easy''"
definition UPnP :: NATType where "UPnP = ''upnp''"
definition IP4 :: NATType where "IP4 = ''ip4''"
definition IP6 :: NATType where "IP6 = ''ip6''"
definition Internal :: NATType where "Internal = ''internal''"

definition AccurateThan :: "NATType \<Rightarrow> NATType \<Rightarrow> bool" where
  "AccurateThan t t1 =
     (if t = Unknown then False
      else if t = t1 then False
      else if t = Easy \<and> t1 \<noteq> Unknown then False
      else if t = Hard \<and> \<not> Contains [Unknown, Easy] t1 then False
      else True)"

section \<open>Pings\<close>

text \<open>
  \<open>Disco.Magic\<close> is a function value that may be nil. It is modelled as an optional
  function of no argument that returns the same bytes at every call.
\<close>

record Disco =
  Magic :: "(unit \<Rightarrow> bytes) option"

definition magic :: "Disco \<Rightarrow> bytes" where
  "magic d =
     (let m = (case Magic d of None \<Rightarrow> [] | Some f \<Rightarrow> f ())
      in if length m = 0 then bytes_of ''_ping'' else m)"

definition NewPing :: "Disco \<Rightarrow> PeerID \<Rightarrow> bytes" where
  "NewPing d peerID = magic d @ peerID"

definition ParsePing :: "Disco \<Rightarrow> bytes \<Rightarrow> PeerID" where
  "ParsePing d b =
     (let m = magic d
      in if length b \<le> length m \<or> length b > 255 + length m then []
         else if Equal m (take (length m) b) then drop (length m) b
         else [])"

section \<open>Frames written by the agent\<close>

text \<open>
  The loop \<open>for i, v := range b { b[i] = v ^ nonce }\<close> of \<open>PeerPacketConn.writeTo\<close>,
  \<open>Peer.write\<close> and both read loops, as a recursion on the index.
\<close>

function xor_loop :: "byte \<Rightarrow> nat \<Rightarrow> bytes \<Rightarrow> bytes" where
  "xor_loop n i b = (if i < length b then xor_loop n (Suc i) (b[i := (b ! i) XOR n]) else b)"
  by pat_completeness auto
termination
  by (relation "measure (\<lambda>(n, i, b). length b - i)") auto

declare xor_loop.simps [simp del]

definition xor_nonce :: "byte \<Rightarrow> bytes \<Rightarrow> bytes" where
  "xor_nonce n b = xor_loop n 0 b"

text \<open>
  \<open>PeerPacketConn.writeTo\<close>: the frame is assembled by four appends, XORed with the
  session nonce in place and handed to the WebSocket as one binary message. The value is
  that message.
\<close>

definition writeTo :: "byte \<Rightarrow> bytes \<Rightarrow> PeerID \<Rightarrow> byte \<Rightarrow> bytes" where
  "writeTo nonce p tgtPeer action =
     (let b = [];
          b = b @ [action];
          b = b @ [Len tgtPeer];
          b = b @ tgtPeer;
          b = b @ p
      in xor_nonce nonce b)"

section \<open>Go slices\<close>

text \<open>
  A received message is a slice of a backing array that may be longer than the slice:
  \<open>elems\<close> are the \<open>len\<close> visible bytes, \<open>spare\<close> the bytes of the backing
  array between \<open>len\<close> and \<open>cap\<close>. An index expression \<open>b[i]\<close> panics unless
  \<open>i < len(b)\<close>; a slice expression \<open>b[lo:hi]\<close> panics unless
  \<open>lo \<le> hi \<le> cap(b)\<close>, and \<open>b[lo:]\<close> is \<open>b[lo:len(b)]\<close>. A panic is the value
  \<open>None\<close>.
\<close>

record slice =
  elems :: bytes
  spare :: bytes



definition make_slice :: "nat \<Rightarrow> slice" where
  "make_slice n = \<lparr>elems = replicate n 0, spare = []\<rparr>"




text \<open>
  \<open>copy(dst, src)\<close> writes \<open>min(len(dst), len(src))\<close> bytes at the start of \<open>dst\<close> and
  returns that number.
\<close>

definition copy :: "bytes \<Rightarrow> bytes \<Rightarrow> nat \<times> bytes" where
  "copy dst src =
     (let n = min (length dst) (length src) in (n, take n src @ drop n dst))"

text \<open>
  \<open>copy(b[lo:], src)\<close> and \<open>copy(b[lo:hi], src)\<close> on a slice \<open>b\<close> made by \<open>make\<close>
  (no spare capacity): the bytes of \<open>b\<close> after the copy, or a panic of the slice
  expression.
\<close>

definition copy_range :: "bytes \<Rightarrow> nat \<Rightarrow> nat \<Rightarrow> bytes \<Rightarrow> bytes option" where
  "copy_range b lo hi src =
     (if lo \<le> hi \<and> hi \<le> length b
      then Some (take lo b @ snd (copy (take (hi - lo) (drop lo b)) src) @ drop hi b)
      else None)"

definition copy_from :: "bytes \<Rightarrow> nat \<Rightarrow> bytes \<Rightarrow> bytes option" where
  "copy_from b lo src = copy_range b lo (length b) src"

section \<open>The peermap: sessions, network contexts and the two indices\<close>

text \<open>
  \<open>url.Values\<close> is a map from keys to lists of values; \<open>Has\<close> tests for a key.
  \<open>Values.Encode\<close> belongs to the standard library and is a parameter \<open>enc\<close> of the
  functions that call it.
\<close>

type_synonym Values = "string \<rightharpoonup> string list"

definition Has :: "Values \<Rightarrow> string \<Rightarrow> bool" where
  "Has v key = (v key \<noteq> None)"

text \<open>
  A session. \<open>network\<close> is \<open>networkSecret.Network\<close>; the connection, the channels and
  the limiters are left out.
\<close>

record Peer =
  peer_id :: PeerID
  metadata :: Values
  network :: string
  nonce :: byte

text \<open>
  A network context. The directory \<open>peers\<close> is a Go map that the code ranges over, so
  it is an association list with distinct keys whose order stands for the order of one
  iteration.
\<close>

record networkContext =
  peers :: "(PeerID \<times> Peer) list"
  ctx_id :: string
  ctx_alias :: string
  neighbors :: "string list"
  createTime :: int
  updateTime :: int

text \<open>
  \<open>Config\<close>: only \<open>PublicNetwork\<close> is read by the functions below; the declaration of
  the field is not among the sources.
\<close>

record Config =
  PublicNetwork :: string

text \<open>
  \<open>networkMap\<close> and \<open>peerMap\<close> both hold pointers to network contexts, so the contexts
  live in a store \<open>ctxs\<close> indexed by address and the maps hold addresses; \<open>next_ctx\<close> is
  the next unused address.
\<close>

record PeerMap =
  ctxs :: "nat \<Rightarrow> networkContext"
  next_ctx :: nat
  networkMap :: "string \<rightharpoonup> nat"
  peerMap :: "PeerID \<rightharpoonup> nat"
  cfg :: Config

datatype error = PeerNotFound string PeerID

definition getNetwork :: "PeerMap \<Rightarrow> string \<Rightarrow> nat option" where
  "getNetwork pm net = networkMap pm net"

definition ctx_getPeer :: "networkContext \<Rightarrow> PeerID \<Rightarrow> Peer option" where
  "ctx_getPeer ctx pid = map_of (peers ctx) pid"

definition getPeer :: "PeerMap \<Rightarrow> string \<Rightarrow> PeerID \<Rightarrow> error + Peer" where
  "getPeer pm net peerID =
     (case getNetwork pm net of
        Some a \<Rightarrow>
          (let ctx = ctxs pm a in
           case ctx_getPeer ctx peerID of
             Some peer \<Rightarrow> Inr peer
           | None \<Rightarrow>
               (case peerMap pm peerID of
                  Some a' \<Rightarrow>
                    (let neighNet = ctxs pm a' in
                     if Contains (neighbors ctx) (ctx_id neighNet)
                     then (case ctx_getPeer neighNet peerID of
                             Some peer \<Rightarrow> Inr peer
                           | None \<Rightarrow> Inl (PeerNotFound net peerID))
                     else Inl (PeerNotFound net peerID))
                | None \<Rightarrow> Inl (PeerNotFound net peerID)))
      | None \<Rightarrow> Inl (PeerNotFound net peerID))"

definition SetIfAbsent :: "networkContext \<Rightarrow> PeerID \<Rightarrow> Peer \<Rightarrow> bool \<times> networkContext" where
  "SetIfAbsent ctx peerID p =
     (if map_of (peers ctx) peerID \<noteq> None then (False, ctx)
      else (True, ctx\<lparr>peers := peers ctx @ [(peerID, p)]\<rparr>))"

text \<open>
  \<open>Peer.write\<close>: the bytes are XORed with the nonce of the session written to and sent
  as one binary message. A sent message is the pair of that session and the bytes on the
  wire.
\<close>

definition Peer_write :: "Peer \<Rightarrow> bytes \<Rightarrow> Peer \<times> bytes" where
  "Peer_write p b = (p, xor_nonce (nonce p) b)"

text \<open>
  \<open>Peer.leadDisco\<close>: one frame to the target introducing \<open>p\<close>, one frame to \<open>p\<close>
  introducing the target, in this order.
\<close>

definition new_peer_frame :: "(Values \<Rightarrow> bytes) \<Rightarrow> Peer \<Rightarrow> bytes option" where
  "new_peer_frame enc p =
     (let myMeta = enc (metadata p);
          b = elems (make_slice (2 + length (peer_id p) + length myMeta));
          b = b[0 := CONTROL_NEW_PEER];
          b = b[1 := Len (peer_id p)]
      in do {
        b \<leftarrow> copy_from b 2 (peer_id p);
        copy_from b (length (peer_id p) + 2) myMeta
      })"

definition leadDisco :: "(Values \<Rightarrow> bytes) \<Rightarrow> Peer \<Rightarrow> Peer \<Rightarrow> (Peer \<times> bytes) list option" where
  "leadDisco enc p target =
     do {
       b \<leftarrow> new_peer_frame enc p;
       b1 \<leftarrow> new_peer_frame enc target;
       Some [Peer_write target b, Peer_write p b1]
     }"

text \<open>
  \<open>Peer.Start\<close>, without the two goroutines it launches: the messages sent, or \<open>None\<close>
  for the nil dereference when the session's network is not in \<open>networkMap\<close>.
\<close>

fun Start_range :: "(Values \<Rightarrow> bytes) \<Rightarrow> Peer \<Rightarrow> (PeerID \<times> Peer) list
    \<Rightarrow> (Peer \<times> bytes) list option" where
  "Start_range enc p [] = Some []"
| "Start_range enc p ((k, v) # rest) =
     (if k = peer_id p then Start_range enc p rest
      else if Has (metadata v) ''silenceMode'' then Start_range enc p rest
      else do {
        sent \<leftarrow> leadDisco enc p v;
        more \<leftarrow> Start_range enc p rest;
        Some (sent @ more)
      })"

definition Start :: "(Values \<Rightarrow> bytes) \<Rightarrow> PeerMap \<Rightarrow> Peer \<Rightarrow> (Peer \<times> bytes) list option" where
  "Start enc pm p =
     (if Has (metadata p) ''silenceMode'' then Some []
      else if PublicNetwork (cfg pm) = network p then Some []
      else (case getNetwork pm (network p) of
              None \<Rightarrow> None
            | Some a \<Rightarrow> Start_range enc p (peers (ctxs pm a))))"




subsection \<open>The upgrade handler\<close>

text \<open>
  \<open>auth.JSONSecret\<close> and \<open>NetState\<close> with the fields the handler reads. Instants are
  integers (nanoseconds); the zero \<open>time.Time\<close> is 0.
\<close>

record JSONSecret =
  Network :: string
  Deadline :: int
  Alias :: string
  Neighbors :: "string list"

record NetState =
  ID :: string
  ns_Alias :: string
  ns_Neighbors :: "string list"
  CreateTime :: int
  UpdateTime :: int

text \<open>
  What the handler gets from outside this package: the authenticator's \<open>ParseSecret\<close>
  (\<open>None\<close> for an error), \<open>peer.MustParseNonce\<close> (\<open>None\<close> for a panic), whether
  \<open>base64.StdEncoding.DecodeString\<close> succeeds, \<open>url.ParseQuery\<close> (\<open>None\<close> for an
  error), \<open>Values.Encode\<close>, the clock, the instant
  \<open>time.Unix(deadline, 0).Add(-cfg.SecretValidityPeriod)\<close>, and whether the WebSocket
  upgrade succeeds.
\<close>

record env =
  ParseSecret :: "string \<Rightarrow> JSONSecret option"
  MustParseNonce :: "string \<Rightarrow> byte option"
  DecodeString_ok :: "string \<Rightarrow> bool"
  ParseQuery :: "string \<Rightarrow> Values option"
  Encode :: "Values \<Rightarrow> bytes"
  Now :: int
  issued_at :: "int \<Rightarrow> int"
  Upgrade_ok :: bool

record request =
  X_Network :: string
  X_PeerID :: PeerID
  X_Nonce :: string
  X_Metadata :: string

datatype response = Status nat | Upgraded | HandlerPanic

definition StatusBadRequest :: nat where "StatusBadRequest = 400"
definition StatusForbidden :: nat where "StatusForbidden = 403"
definition StatusInternalServerError :: nat where "StatusInternalServerError = 500"

definition MaxInt64 :: int where "MaxInt64 = 2 ^ 63 - 1"

definition newNetworkContext :: "NetState \<Rightarrow> networkContext" where
  "newNetworkContext state =
     \<lparr>peers = [], ctx_id = ID state, ctx_alias = ns_Alias state,
      neighbors = ns_Neighbors state, createTime = CreateTime state,
      updateTime = UpdateTime state\<rparr>"

definition initMeta :: "networkContext \<Rightarrow> string \<Rightarrow> string list \<Rightarrow> int \<Rightarrow> networkContext" where
  "initMeta ctx n_alias n_neighbors t =
     (if updateTime ctx > t then ctx
      else ctx\<lparr>updateTime := t, ctx_alias := n_alias, neighbors := n_neighbors\<rparr>)"

definition authenticate :: "env \<Rightarrow> PeerMap \<Rightarrow> string \<Rightarrow> JSONSecret option" where
  "authenticate ev pm networkSecrest =
     (if length (PublicNetwork (cfg pm)) = 0 \<or> PublicNetwork (cfg pm) \<noteq> networkSecrest
      then ParseSecret ev networkSecrest
      else Some \<lparr>Network = networkSecrest, Deadline = MaxInt64, Alias = [], Neighbors = []\<rparr>)"

definition lookup_or_create :: "PeerMap \<Rightarrow> string \<Rightarrow> int \<Rightarrow> nat \<times> PeerMap" where
  "lookup_or_create pm net t =
     (case networkMap pm net of
        Some a \<Rightarrow> (a, pm)
      | None \<Rightarrow>
          (let a = next_ctx pm;
               ctx = newNetworkContext
                 \<lparr>ID = net, ns_Alias = [], ns_Neighbors = [], CreateTime = t, UpdateTime = 0\<rparr>
           in (a, pm\<lparr>ctxs := (ctxs pm)(a := ctx), next_ctx := Suc a,
                      networkMap := (networkMap pm)(net \<mapsto> a)\<rparr>)))"

definition parse_metadata :: "env \<Rightarrow> string \<Rightarrow> Values option" where
  "parse_metadata ev md =
     (if length md > 0
      then (if DecodeString_ok ev md then None else ParseQuery ev md)
      else Some Map.empty)"

definition HandlePeerPacketConnect ::
    "env \<Rightarrow> PeerMap \<Rightarrow> request \<Rightarrow> response \<times> PeerMap \<times> (Peer \<times> bytes) list" where
  "HandlePeerPacketConnect ev pm r =
     (case authenticate ev pm (X_Network r) of
        None \<Rightarrow> (Status StatusForbidden, pm, [])
      | Some jsonSecret \<Rightarrow>
          (case MustParseNonce ev (X_Nonce r) of
             None \<Rightarrow> (HandlerPanic, pm, [])
           | Some n \<Rightarrow>
               (let peerID = X_PeerID r;
                    (a, pm1) = lookup_or_create pm (Network jsonSecret) (Now ev);
                    pm2 = pm1\<lparr>ctxs := (ctxs pm1)
                            (a := initMeta (ctxs pm1 a) (Alias jsonSecret) (Neighbors jsonSecret)
                                    (issued_at ev (Deadline jsonSecret)))\<rparr>;
                    peer = \<lparr>peer_id = peerID, metadata = Map.empty,
                            network = Network jsonSecret, nonce = n\<rparr>
                in case parse_metadata ev (X_Metadata r) of
                     None \<Rightarrow> (Status StatusForbidden, pm2, [])
                   | Some meta \<Rightarrow>
                       (let peer = peer\<lparr>metadata := meta\<rparr>;
                            (ok, ctx') = SetIfAbsent (ctxs pm2 a) peerID peer
                        in if \<not> ok then (Status StatusBadRequest, pm2, [])
                           else
                             (let pm3 = pm2\<lparr>ctxs := (ctxs pm2)(a := ctx'),
                                             peerMap := (peerMap pm2)(peerID \<mapsto> a)\<rparr>
                              in if \<not> Upgrade_ok ev
                                 then (Status StatusInternalServerError, pm3, [])
                                 else (case Start (Encode ev) pm3 peer of
                                         None \<Rightarrow> (HandlerPanic, pm3, [])
                                       | Some sent \<Rightarrow> (Upgraded, pm3, sent)))))))"

section \<open>The agent: peer contexts, events and the packet connection\<close>

text \<open>
  Durations are 64-bit signed integers of nanoseconds, instants are integers of
  nanoseconds counted from the zero \<open>time.Time\<close>. \<open>time.Since(t)\<close> is
  \<open>time.Now().Sub(t)\<close>, which saturates at the largest and smallest duration.
  \<open>2*c.node.peerKeepaliveInterval\<close> is a 64-bit product. The code reads the clock at
  every test; \<open>now\<close> stands for the reading, one instant for each call modelled here.
\<close>

definition maxDuration :: int where "maxDuration = 2 ^ 63 - 1"
definition minDuration :: int where "minDuration = - (2 ^ 63)"

definition Since :: "int \<Rightarrow> int \<Rightarrow> int" where
  "Since now t =
     (let d = now - t
      in if d > maxDuration then maxDuration else if d < minDuration then minDuration else d)"

definition Second :: "64 word" where "Second = 1000000000"

record UDPAddr =
  IP :: bytes
  Port :: int



text \<open>
  \<open>Conn\<close> is the handle of a UDP socket; the code never tests it for nil, while it does
  test \<open>Addr\<close>, which is therefore optional.
\<close>

record PeerContext =
  Addr :: "UDPAddr option"
  Conn :: nat
  LastValidTime :: int
  UpdateTime_ctx :: int

definition OP_PEER_DISCO1 :: int where "OP_PEER_DISCO1 = 0"
definition OP_PEER_DISCO2 :: int where "OP_PEER_DISCO2 = 1"
definition OP_PEER_CONFIRM :: int where "OP_PEER_CONFIRM = 2"
definition OP_PEER_HEALTHCHECK :: int where "OP_PEER_HEALTHCHECK = 10"

record PeerEvent =
  Op :: int
  ev_Addr :: "UDPAddr option"
  ev_Conn :: nat
  ev_PeerID :: PeerID

text \<open>
  The packet connection. \<open>peersMap\<close> is a Go map that the code ranges over: an
  association list with distinct keys, in the order of one iteration. The channels
  \<open>peerEvent\<close>, \<open>inbound\<close> and \<open>stunChan\<close> are queues. \<open>healthcheckTimer\<close> holds the
  duration the timer was last armed with, \<open>ctx_done\<close> and \<open>node_closed\<close> whether
  \<open>c.ctx.Done()\<close> and \<open>c.node.closedSig\<close> are closed.
\<close>

record PeerPacketConn =
  peersMap :: "(PeerID \<times> PeerContext) list"
  peerEvent :: "PeerEvent list"
  inbound :: "slice list"
  stunChan :: "bytes list"
  conn_peerID :: PeerID
  conn_nonce :: byte
  peerKeepaliveInterval :: "64 word"
  healthcheckTimer :: "64 word option"
  ctx_done :: bool
  node_closed :: bool

definition expired :: "PeerPacketConn \<Rightarrow> int \<Rightarrow> PeerContext \<Rightarrow> bool" where
  "expired c now v \<longleftrightarrow> Since now (LastValidTime v) > sint (2 * peerKeepaliveInterval c)"

definition peerConnected :: "PeerPacketConn \<Rightarrow> int \<Rightarrow> PeerID \<Rightarrow> bool" where
  "peerConnected c now peerID =
     (case map_of (peersMap c) peerID of
        Some peerCtx \<Rightarrow> Since now (LastValidTime peerCtx) \<le> sint (2 * peerKeepaliveInterval c)
      | None \<Rightarrow> False)"

text \<open>
  What a call of \<open>WriteTo\<close> does: it fails before writing, or hands the payload to a UDP
  socket with a destination, or hands one binary message to the WebSocket.
\<close>

datatype net_Addr = PeerAddr PeerID | OtherAddr

datatype written =
    NotP2PAddress
  | ErrClosedPipe
  | WriteToUDP nat UDPAddr bytes
  | WriteMessage bytes

definition writeToUDP :: "PeerPacketConn \<Rightarrow> PeerID \<Rightarrow> bytes \<Rightarrow> written" where
  "writeToUDP c peerID p =
     (case map_of (peersMap c) peerID of
        Some peerCtx \<Rightarrow>
          (case Addr peerCtx of
             Some a \<Rightarrow> WriteToUDP (Conn peerCtx) a p
           | None \<Rightarrow> ErrClosedPipe)
      | None \<Rightarrow> ErrClosedPipe)"

definition WriteTo :: "PeerPacketConn \<Rightarrow> int \<Rightarrow> bytes \<Rightarrow> net_Addr \<Rightarrow> written" where
  "WriteTo c now p addr =
     (case addr of
        OtherAddr \<Rightarrow> NotP2PAddress
      | PeerAddr tgtPeer \<Rightarrow>
          if peerConnected c now tgtPeer then writeToUDP c tgtPeer p
          else WriteMessage (writeTo (conn_nonce c) p tgtPeer 0))"










text \<open>
  \<open>c.node.peerKeepaliveInterval/2 + time.Second\<close>: the division of 64-bit signed
  integers truncates towards zero, the sum wraps.
\<close>

definition healthcheckPeriod :: "PeerPacketConn \<Rightarrow> 64 word" where
  "healthcheckPeriod c = word_of_int (sint (peerKeepaliveInterval c) sdiv 2) + Second"

text \<open>
  \<open>handlePeerEvent\<close>: the new state and what the handler does outside it: sockets
  closed, and an event put back on the channel by \<open>time.AfterFunc\<close>.
\<close>

datatype effect = CloseConn nat | AfterFunc PeerEvent

fun healthcheck_range :: "PeerPacketConn \<Rightarrow> int \<Rightarrow> (PeerID \<times> PeerContext) list
    \<Rightarrow> (PeerID \<times> PeerContext) list \<Rightarrow> (PeerID \<times> PeerContext) list \<times> effect list" where
  "healthcheck_range c now [] m = (m, [])"
| "healthcheck_range c now ((k, v) # rest) m =
     (if expired c now v
      then (let (m', fx) = healthcheck_range c now rest (AList.delete k m)
            in (m', CloseConn (Conn v) # fx))
      else healthcheck_range c now rest m)"

definition handlePeerEvent :: "PeerPacketConn \<Rightarrow> int \<Rightarrow> PeerEvent \<Rightarrow> PeerPacketConn \<times> effect list" where
  "handlePeerEvent c now e =
     (if Op e = OP_PEER_DISCO1 then
        (let c1 = c\<lparr>healthcheckTimer := Some (healthcheckPeriod c)\<rparr>;
             peerCtx = \<lparr>Addr = None, Conn = ev_Conn e, LastValidTime = 0, UpdateTime_ctx = 0\<rparr>
         in case map_of (peersMap c1) (ev_PeerID e) of
              Some peer \<Rightarrow>
                (c1\<lparr>peersMap := AList.delete (ev_PeerID e) (peersMap c1)
                                 @ [(ev_PeerID e, peerCtx\<lparr>Addr := Addr peer\<rparr>)]\<rparr>,
                 [CloseConn (Conn peer)])
            | None \<Rightarrow> (c1\<lparr>peersMap := peersMap c1 @ [(ev_PeerID e, peerCtx)]\<rparr>, []))
      else if Op e = OP_PEER_DISCO2 then
        (case map_of (peersMap c) (ev_PeerID e) of
           Some peerCtx \<Rightarrow>
             (c\<lparr>peersMap := AList.update (ev_PeerID e) (peerCtx\<lparr>Addr := ev_Addr e\<rparr>) (peersMap c)\<rparr>, [])
         | None \<Rightarrow> (c, [AfterFunc e]))
      else if Op e = OP_PEER_CONFIRM then
        (case map_of (peersMap c) (ev_PeerID e) of
           Some peer \<Rightarrow>
             (c\<lparr>peersMap := AList.update (ev_PeerID e)
                               (peer\<lparr>LastValidTime := now, Addr := ev_Addr e\<rparr>) (peersMap c)\<rparr>, [])
         | None \<Rightarrow> (c, []))
      else if Op e = OP_PEER_HEALTHCHECK then
        (let (m, fx) = healthcheck_range c now (peersMap c) (peersMap c)
         in (c\<lparr>peersMap := m\<rparr>, fx))
      else (c, []))"

text \<open>
  The timer branch of \<open>runPeersHealthcheck\<close>: one event is sent and the timer is armed
  again.
\<close>

definition runPeersHealthcheck :: "PeerPacketConn \<Rightarrow> PeerPacketConn" where
  "runPeersHealthcheck c =
     c\<lparr>peerEvent := peerEvent c @
          [\<lparr>Op = OP_PEER_HEALTHCHECK, ev_Addr = None, ev_Conn = 0, ev_PeerID = []\<rparr>],
       healthcheckTimer := Some (healthcheckPeriod c)\<rparr>"

text \<open>
  \<open>runPeerEventEngine\<close>: the events taken from the channel are handled one after the
  other; each comes with the reading of the clock at the time it is handled. \<open>peersMap\<close>
  is written by \<open>handlePeerEvent\<close> only.
\<close>

fun runPeerEventEngine :: "PeerPacketConn \<Rightarrow> (int \<times> PeerEvent) list \<Rightarrow> PeerPacketConn" where
  "runPeerEventEngine c [] = c"
| "runPeerEventEngine c ((now, e) # es) = runPeerEventEngine (fst (handlePeerEvent c now e)) es"

text \<open>
  The events the code sends: \<open>requestSTUN\<close> sends \<open>OP_PEER_DISCO1\<close> with a socket,
  \<open>natTraversal\<close> sends \<open>OP_PEER_DISCO2\<close> with the address \<open>net.ResolveUDPAddr\<close> returned
  without error, \<open>runReadUDPLoop\<close> sends \<open>OP_PEER_CONFIRM\<close> with the source address of a
  datagram read without error, \<open>runPeersHealthcheck\<close> sends \<open>OP_PEER_HEALTHCHECK\<close>. The
  address of a DISCO2 or CONFIRM event is therefore never nil.
\<close>

definition source_event :: "PeerEvent \<Rightarrow> bool" where
  "source_event e \<longleftrightarrow> (Op e = OP_PEER_DISCO2 \<or> Op e = OP_PEER_CONFIRM \<longrightarrow> ev_Addr e \<noteq> None)"

text \<open>A context without an address has never been confirmed.\<close>

definition unconfirmed_without_addr :: "(PeerID \<times> PeerContext) list \<Rightarrow> bool" where
  "unconfirmed_without_addr m \<longleftrightarrow> (\<forall>(k, v) \<in> set m. Addr v = None \<longrightarrow> LastValidTime v = 0)"

section \<open>Frames and messages named by the specification\<close>



section \<open>The order of NAT types that \<open>AccurateThan\<close> computes\<close>

definition precision :: "NATType \<Rightarrow> nat" where
  "precision t = (if t = Unknown then 0 else if t = Easy then 1 else if t = Hard then 2 else 3)"

section \<open>Example states\<close>

text \<open>
  A peermap with two networks: alice, bob and carol (who is in silenceMode) in net1,
  dave in net2, and net2 a neighbour of net1. The argument is \<open>cfg.PublicNetwork\<close>.
\<close>

definition enc0 :: "Values \<Rightarrow> bytes" where
  "enc0 m = (case m ''name'' of None \<Rightarrow> [] | Some vs \<Rightarrow> concat (map bytes_of vs))"

definition alice :: Peer where
  "alice = \<lparr>peer_id = [97], metadata = [''name'' \<mapsto> [''a'']], network = ''net1'', nonce = 1\<rparr>"

definition bob :: Peer where
  "bob = \<lparr>peer_id = [98], metadata = Map.empty, network = ''net1'', nonce = 2\<rparr>"

definition carol :: Peer where
  "carol = \<lparr>peer_id = [99], metadata = [''silenceMode'' \<mapsto> [''1'']], network = ''net1'',
            nonce = 3\<rparr>"

definition dave :: Peer where
  "dave = \<lparr>peer_id = [100], metadata = Map.empty, network = ''net2'', nonce = 4\<rparr>"

definition net1 :: networkContext where
  "net1 = \<lparr>peers = [([98], bob), ([99], carol), ([97], alice)], ctx_id = ''net1'', ctx_alias = [],
           neighbors = [''net2''], createTime = 10, updateTime = 20\<rparr>"

definition net2 :: networkContext where
  "net2 = \<lparr>peers = [([100], dave)], ctx_id = ''net2'', ctx_alias = [],
           neighbors = [], createTime = 10, updateTime = 20\<rparr>"

definition ex_pm :: "string \<Rightarrow> PeerMap" where
  "ex_pm pub = \<lparr>ctxs = (\<lambda>a. if a = 0 then net1 else net2), next_ctx = 2,
             networkMap = [''net1'' \<mapsto> 0, ''net2'' \<mapsto> 1],
             peerMap = [[97] \<mapsto> 0, [98] \<mapsto> 0, [99] \<mapsto> 0, [100] \<mapsto> 1],
             cfg = \<lparr>PublicNetwork = pub\<rparr>\<rparr>"

text \<open>An upgrade request that presents bob's ID a second time, with a valid secret for net1.\<close>

definition ex_env :: env where
  "ex_env = \<lparr>ParseSecret = (\<lambda>s. if s = ''tok1''
                 then Some \<lparr>Network = ''net1'', Deadline = 100, Alias = [], Neighbors = [''net2'']\<rparr>
                 else None),
             MustParseNonce = (\<lambda>s. Some 7),
             DecodeString_ok = (\<lambda>s. False),
             ParseQuery = (\<lambda>s. Some Map.empty),
             Encode = enc0, Now = 50, issued_at = (\<lambda>d. d - 10), Upgrade_ok = True\<rparr>"

definition ex_request :: request where
  "ex_request = \<lparr>X_Network = ''tok1'', X_PeerID = [98], X_Nonce = ''07'', X_Metadata = []\<rparr>"

text \<open>
  An agent with a keepalive interval of 10 s and three peer contexts: one confirmed at
  \<open>T0\<close> with an address, one confirmed at \<open>T0\<close> without an address, one never
  confirmed. The clock reads \<open>now0\<close>, 5 s after \<open>T0\<close>.
\<close>

definition T0 :: int where "T0 = 63900000000000000000"

definition now0 :: int where "now0 = T0 + 5000000000"

definition ex_conn :: PeerPacketConn where
  "ex_conn = \<lparr>peersMap =
       [([98], \<lparr>Addr = Some \<lparr>IP = [10, 0, 0, 2], Port = 4000\<rparr>, Conn = 3,
                LastValidTime = T0, UpdateTime_ctx = 0\<rparr>),
        ([99], \<lparr>Addr = None, Conn = 4, LastValidTime = T0, UpdateTime_ctx = 0\<rparr>),
        ([100], \<lparr>Addr = Some \<lparr>IP = [10, 0, 0, 4], Port = 4000\<rparr>, Conn = 5,
                 LastValidTime = 0, UpdateTime_ctx = 0\<rparr>)],
     peerEvent = [], inbound = [], stunChan = [], conn_peerID = [97], conn_nonce = 7,
     peerKeepaliveInterval = 10000000000, healthcheckTimer = None,
     ctx_done = False, node_closed = False\<rparr>"

definition ex_healthcheck :: PeerEvent where
  "ex_healthcheck = \<lparr>Op = OP_PEER_HEALTHCHECK, ev_Addr = None, ev_Conn = 0, ev_PeerID = []\<rparr>"

text \<open>
  An agent that starts with no peer context and handles three events: discovery of
  peers 98 and 100, then a ping from peer 98 at \<open>T0\<close>.
\<close>

definition ex_start :: PeerPacketConn where
  "ex_start = \<lparr>peersMap = [], peerEvent = [], inbound = [], stunChan = [], conn_peerID = [97],
     conn_nonce = 7, peerKeepaliveInterval = 10000000000, healthcheckTimer = None,
     ctx_done = False, node_closed = False\<rparr>"

definition ex_events :: "(int \<times> PeerEvent) list" where
  "ex_events =
     [(T0 - 2000000000, \<lparr>Op = OP_PEER_DISCO1, ev_Addr = None, ev_Conn = 3, ev_PeerID = [98]\<rparr>),
      (T0 - 1000000000, \<lparr>Op = OP_PEER_DISCO1, ev_Addr = None, ev_Conn = 5, ev_PeerID = [100]\<rparr>),
      (T0, \<lparr>Op = OP_PEER_CONFIRM, ev_Addr = Some \<lparr>IP = [10, 0, 0, 2], Port = 4000\<rparr>,
            ev_Conn = 0, ev_PeerID = [98]\<rparr>)]"




section \<open>Properties\<close>

lemma Contains_iff: "Contains xs x \<longleftrightarrow> x \<in> set xs"
  by (induction xs) auto

lemma Equal_iff: "Equal xs ys \<longleftrightarrow> xs = ys"
  by (induction xs ys rule: Equal.induct) auto

lemma xor_loop_step:
  assumes "i < length b"
  shows "take (Suc i) (b[i := f (b ! i)]) @ map f (drop (Suc i) (b[i := f (b ! i)]))
         = take i b @ map f (drop i b)"
proof -
  have l: "take (Suc i) (b[i := f (b ! i)]) = take i b @ [f (b ! i)]"
    using assms by (simp add: take_Suc_conv_app_nth)
  have r: "drop i b = b ! i # drop (Suc i) b"
    using assms by (rule Cons_nth_drop_Suc [symmetric])
  have "map f (drop i b) = f (b ! i) # map f (drop (Suc i) b)"
    by (subst r) simp
  with l show ?thesis by simp
qed

lemma xor_loop_eq:
  "i \<le> length b \<Longrightarrow> xor_loop n i b = take i b @ map (\<lambda>v. v XOR n) (drop i b)"
proof (induction n i b rule: xor_loop.induct)
  case (1 n i b)
  show ?case
  proof (cases "i < length b")
    case True
    have "xor_loop n i b = xor_loop n (Suc i) (b[i := (b ! i) XOR n])"
      using True by (subst xor_loop.simps) simp
    also have "\<dots> = take (Suc i) (b[i := (b ! i) XOR n])
                  @ map (\<lambda>v. v XOR n) (drop (Suc i) (b[i := (b ! i) XOR n]))"
      using True by (intro "1.IH") simp_all
    also have "\<dots> = take i b @ map (\<lambda>v. v XOR n) (drop i b)"
      using True by (rule xor_loop_step)
    finally show ?thesis .
  next
    case False
    with "1.prems" show ?thesis by (subst xor_loop.simps) simp
  qed
qed

lemma xor_nonce_map: "xor_nonce n b = map (\<lambda>v. v XOR n) b"
  unfolding xor_nonce_def by (subst xor_loop_eq) simp_all

lemma xor_twice: "map (\<lambda>v. v XOR n) (map (\<lambda>v. v XOR n) b) = (b :: bytes)"
  by (induction b) (simp_all add: xor.assoc)

subsection \<open>NAT types\<close>

text \<open>
  C4 (counterexample). The claim has \<open>AccurateThan\<close> false whenever both types belong
  to the class hard, upnp, ip4, ip6, internal. The code answers true for upnp against
  hard, both members of that class.
\<close>

theorem AccurateThan_top_class_counterexample:
  "Contains [Hard, UPnP, IP4, IP6, Internal] UPnP
   \<and> Contains [Hard, UPnP, IP4, IP6, Internal] Hard
   \<and> AccurateThan UPnP Hard"
  by (simp add: AccurateThan_def Unknown_def Easy_def Hard_def UPnP_def)

text \<open>
  C4 (amended). \<open>t.AccurateThan(t1)\<close> is true iff \<open>t\<close> differs from \<open>t1\<close> and either
  \<open>t\<close> is strictly above \<open>t1\<close> in the order unknown < easy < hard < every other value,
  or \<open>t\<close> is itself one of the other values (upnp, ip4, ip6, internal): these replace
  hard and replace each other. It is false whenever \<open>t = t1\<close> and whenever \<open>t\<close> is
  unknown.
\<close>

theorem AccurateThan_precision:
  "AccurateThan t t1 \<longleftrightarrow> t \<noteq> t1 \<and> (precision t1 < precision t \<or> 3 \<le> precision t)"
  by (auto simp: AccurateThan_def precision_def Unknown_def Easy_def Hard_def)

theorem AccurateThan_precision_witness:
  "AccurateThan Internal Easy \<and> \<not> AccurateThan Hard IP6 \<and> AccurateThan IP4 IP6
   \<and> \<not> AccurateThan Unknown Easy \<and> \<not> AccurateThan IP4 IP4"
  using AccurateThan_precision [of Internal Easy] AccurateThan_precision [of Hard IP6]
    AccurateThan_precision [of IP4 IP6] AccurateThan_precision [of Unknown Easy]
    AccurateThan_precision [of IP4 IP4]
  by (simp add: precision_def Unknown_def Easy_def Hard_def Internal_def IP6_def IP4_def)

subsection \<open>Frames\<close>

lemma writeTo_eq: "writeTo n p t a = map (\<lambda>v. v XOR n) ([a, Len t] @ t @ p)"
  by (simp add: writeTo_def xor_nonce_map)

text \<open>
  C5. For a control code \<open>a\<close>, a target PeerID \<open>t\<close> of 1 to 255 bytes, a payload \<open>p\<close>
  and a nonce \<open>n\<close>, the message that \<open>writeTo\<close> hands to the WebSocket is the sequence
  \<open>[a, |t|] @ t @ p\<close> with every byte XORed with \<open>n\<close>; XORing every byte of the message
  with \<open>n\<close> a second time gives \<open>[a, |t|] @ t @ p\<close> back: byte 0 is the control code,
  byte 1 the address length N, bytes 2 to 2+N the PeerID, the rest the payload. The loop
  of \<open>Peer.write\<close> and of the read loops XORs every byte with the nonce, and doing so
  twice is the identity on every byte sequence.
\<close>

theorem writeTo_frame_layout:
  assumes "1 \<le> length t" "length t \<le> 255"
  shows "writeTo n p t a = map (\<lambda>v. v XOR n) ([a, of_nat (length t)] @ t @ p)
       \<and> map (\<lambda>v. v XOR n) (writeTo n p t a) = [a, of_nat (length t)] @ t @ p
       \<and> (let f = map (\<lambda>v. v XOR n) (writeTo n p t a); N = unat (f ! 1)
          in f ! 0 = a \<and> N = length t \<and> take N (drop 2 f) = t \<and> drop (2 + N) f = p)
       \<and> (\<forall>b. xor_nonce n b = map (\<lambda>v. v XOR n) b)
       \<and> (\<forall>b. map (\<lambda>v. v XOR n) (map (\<lambda>v. v XOR n) b) = b)
       \<and> xor_nonce n (writeTo n p t a) = [a, of_nat (length t)] @ t @ p"
proof -
  have w: "writeTo n p t a = map (\<lambda>v. v XOR n) ([a, of_nat (length t)] @ t @ p)"
    unfolding writeTo_eq by (simp add: Len_def)
  have f: "map (\<lambda>v. v XOR n) (writeTo n p t a) = [a, of_nat (length t)] @ t @ p"
    unfolding w by (rule xor_twice)
  have N: "unat (of_nat (length t) :: byte) = length t"
    using assms by (simp add: unat_of_nat)
  have l: "(let f = map (\<lambda>v. v XOR n) (writeTo n p t a); N = unat (f ! 1)
          in f ! 0 = a \<and> N = length t \<and> take N (drop 2 f) = t \<and> drop (2 + N) f = p)"
    unfolding f Let_def using N by simp
  have x: "xor_nonce n (writeTo n p t a) = [a, of_nat (length t)] @ t @ p"
    unfolding xor_nonce_map by (rule f)
  show ?thesis using w f l x xor_nonce_map xor_twice by blast
qed

theorem writeTo_frame_layout_witness:
  "writeTo 7 [9, 9] [1, 2, 3] 0 = [7, 4, 6, 5, 4, 14, 14]
   \<and> map (\<lambda>v. v XOR 7) (writeTo 7 [9, 9] [1, 2, 3] 0) = [0, 3, 1, 2, 3, 9, 9]"
  using writeTo_frame_layout [of "[1, 2, 3]" 7 "[9, 9]" 0] by simp

subsection \<open>Pings\<close>

lemma magic_default:
  "Magic d = None \<or> (\<exists>f. Magic d = Some f \<and> f () = []) \<Longrightarrow> magic d = bytes_of ''_ping''"
  by (auto simp: magic_def)

lemma ParsePing_NewPing:
  assumes "1 \<le> length pid" "length pid \<le> 255"
  shows "ParsePing d (NewPing d pid) = pid"
  using assms by (simp add: ParsePing_def NewPing_def Let_def Equal_iff)

lemma ParsePing_reject:
  assumes "length b \<le> length (magic d) \<or> length b > 255 + length (magic d)
           \<or> \<not> prefix (magic d) b"
  shows "ParsePing d b = []"
proof (cases "length b \<le> length (magic d) \<or> length b > 255 + length (magic d)")
  case True
  then show ?thesis by (auto simp: ParsePing_def Let_def)
next
  case False
  with assms have np: "\<not> prefix (magic d) b" by blast
  have "take (length (magic d)) b \<noteq> magic d"
  proof
    assume "take (length (magic d)) b = magic d"
    then have "prefix (magic d) b" by (metis take_is_prefix)
    with np show False by contradiction
  qed
  then show ?thesis by (auto simp: ParsePing_def Let_def Equal_iff)
qed

text \<open>
  C6. \<open>ParsePing (NewPing id) = id\<close> for every PeerID of 1 to 255 bytes; \<open>ParsePing b\<close>
  is the empty PeerID when \<open>b\<close> is no longer than the magic, longer than 255 plus the
  magic, or does not start with the magic; the magic is the ASCII \<open>_ping\<close> when \<open>Magic\<close>
  is nil or returns no bytes.
\<close>

theorem ParsePing_roundtrip:
  "(1 \<le> length pid \<and> length pid \<le> 255 \<longrightarrow> ParsePing d (NewPing d pid) = pid)
   \<and> (length b \<le> length (magic d) \<or> length b > 255 + length (magic d) \<or> \<not> prefix (magic d) b
        \<longrightarrow> ParsePing d b = [])
   \<and> (Magic d = None \<or> (\<exists>f. Magic d = Some f \<and> f () = []) \<longrightarrow> magic d = bytes_of ''_ping'')"
  using ParsePing_NewPing ParsePing_reject magic_default by blast

theorem ParsePing_roundtrip_witness:
  "ParsePing \<lparr>Magic = None\<rparr> (NewPing \<lparr>Magic = None\<rparr> [97, 108]) = [97, 108]
   \<and> ParsePing \<lparr>Magic = None\<rparr> [95, 112, 105, 110] = []
   \<and> magic \<lparr>Magic = None\<rparr> = [95, 112, 105, 110, 103]"
  using ParsePing_roundtrip [of "[97, 108]" "\<lparr>Magic = None\<rparr>" "[95, 112, 105, 110]"]
  by (simp add: bytes_of_def)

subsection \<open>Copying into a slice\<close>





subsection \<open>Introductions at the start of a session\<close>







subsection \<open>Resolving a peer\<close>

text \<open>
  C7. \<open>getPeer n p\<close> returns the session registered for \<open>p\<close> in network \<open>n\<close> when
  there is one; when there is none, and the global index leads to a context that holds a
  session for \<open>p\<close>, it returns that session iff the ID of that context is in the
  neighbour list of \<open>n\<close>; in every other case, an unknown \<open>n\<close> included, it returns
  the peer-not-found error.
\<close>

theorem getPeer_resolution:
  "(\<forall>a s. networkMap pm n = Some a \<and> map_of (peers (ctxs pm a)) p = Some s
       \<longrightarrow> getPeer pm n p = Inr s)
 \<and> (\<forall>a a' s. networkMap pm n = Some a \<and> map_of (peers (ctxs pm a)) p = None
        \<and> peerMap pm p = Some a' \<and> map_of (peers (ctxs pm a')) p = Some s
       \<longrightarrow> (getPeer pm n p = Inr s \<longleftrightarrow> ctx_id (ctxs pm a') \<in> set (neighbors (ctxs pm a))))
 \<and> (getPeer pm n p = Inl (PeerNotFound n p)
     \<or> (\<exists>a s. networkMap pm n = Some a \<and> getPeer pm n p = Inr s
          \<and> (map_of (peers (ctxs pm a)) p = Some s
             \<or> (map_of (peers (ctxs pm a)) p = None
                 \<and> (\<exists>a'. peerMap pm p = Some a' \<and> map_of (peers (ctxs pm a')) p = Some s
                      \<and> ctx_id (ctxs pm a') \<in> set (neighbors (ctxs pm a)))))))"
  by (auto simp: getPeer_def getNetwork_def ctx_getPeer_def Let_def Contains_iff split: option.splits)

theorem getPeer_resolution_witness:
  "getPeer (ex_pm '''') ''net1'' [98] = Inr bob
   \<and> getPeer (ex_pm '''') ''net1'' [100] = Inr dave
   \<and> getPeer (ex_pm '''') ''net2'' [97] \<noteq> Inr alice"
proof -
  note t = getPeer_resolution [of "ex_pm ''''"]
  have 1: "getPeer (ex_pm '''') ''net1'' [98] = Inr bob"
    using t [of "''net1''" "[98]", THEN conjunct1, rule_format, of 0 bob]
    by (simp add: ex_pm_def net1_def)
  have 2: "getPeer (ex_pm '''') ''net1'' [100] = Inr dave"
    using t [of "''net1''" "[100]", THEN conjunct2, THEN conjunct1, rule_format, of 0 1 dave]
    by (simp add: ex_pm_def net1_def net2_def)
  have 3: "getPeer (ex_pm '''') ''net2'' [97] \<noteq> Inr alice"
    using t [of "''net2''" "[97]", THEN conjunct2, THEN conjunct1, rule_format, of 1 0 alice]
    by (simp add: ex_pm_def net1_def net2_def)
  show ?thesis using 1 2 3 by simp
qed

subsection \<open>Duplicate peer IDs\<close>

lemma SetIfAbsent_present:
  "map_of (peers ctx) pid = Some s \<Longrightarrow> SetIfAbsent ctx pid p = (False, ctx)"
  by (simp add: SetIfAbsent_def)

text \<open>
  C8. When the peer ID of a request is already in the directory of the network its
  secret names, \<open>SetIfAbsent\<close> returns false and leaves the context as it is, and the
  handler, once authentication, the nonce and the metadata have passed, answers 400,
  writes nothing, and leaves every directory, the network map and the global peer index
  as they were: the ID still leads to the earlier session.
\<close>

theorem duplicate_peer_rejected:
  assumes auth: "authenticate ev pm (X_Network r) = Some secret"
    and nonce: "MustParseNonce ev (X_Nonce r) = Some n"
    and meta: "parse_metadata ev (X_Metadata r) = Some m"
    and net: "networkMap pm (Network secret) = Some a"
    and dup: "map_of (peers (ctxs pm a)) (X_PeerID r) = Some s"
  shows "SetIfAbsent (ctxs pm a) (X_PeerID r) p = (False, ctxs pm a)
     \<and> (case HandlePeerPacketConnect ev pm r of (resp, pm', sent) \<Rightarrow>
          resp = Status 400 \<and> sent = []
          \<and> (\<forall>a'. peers (ctxs pm' a') = peers (ctxs pm a'))
          \<and> networkMap pm' = networkMap pm \<and> peerMap pm' = peerMap pm
          \<and> map_of (peers (ctxs pm' a)) (X_PeerID r) = Some s)"
proof -
  have 1: "lookup_or_create pm (Network secret) t = (a, pm)" for t
    using net by (simp add: lookup_or_create_def)
  have 2: "peers (initMeta c x y z) = peers c" for c x y z
    by (simp add: initMeta_def)
  show ?thesis
    using assms
    by (simp add: HandlePeerPacketConnect_def 1 2 Let_def SetIfAbsent_def StatusBadRequest_def)
qed

theorem duplicate_peer_rejected_witness:
  "fst (HandlePeerPacketConnect ex_env (ex_pm '''') ex_request) = Status 400
   \<and> map_of (peers (ctxs (fst (snd (HandlePeerPacketConnect ex_env (ex_pm '''') ex_request))) 0)) [98] = Some bob
   \<and> peerMap (fst (snd (HandlePeerPacketConnect ex_env (ex_pm '''') ex_request))) = peerMap (ex_pm '''')"
proof -
  have h1: "authenticate ex_env (ex_pm '''') (X_Network ex_request)
      = Some \<lparr>Network = ''net1'', Deadline = 100, Alias = [], Neighbors = [''net2'']\<rparr>"
    by (simp add: authenticate_def ex_env_def ex_pm_def ex_request_def)
  have h2: "MustParseNonce ex_env (X_Nonce ex_request) = Some 7"
    by (simp add: ex_env_def)
  have h3: "parse_metadata ex_env (X_Metadata ex_request) = Some Map.empty"
    by (simp add: parse_metadata_def ex_request_def)
  have h4: "networkMap (ex_pm '''')
      (Network \<lparr>Network = ''net1'', Deadline = 100, Alias = [], Neighbors = [''net2'']\<rparr>) = Some 0"
    by (simp add: ex_pm_def)
  have h5: "map_of (peers (ctxs (ex_pm '''') 0)) (X_PeerID ex_request) = Some bob"
    by (simp add: ex_pm_def net1_def ex_request_def)
  obtain resp pm' sent where r: "HandlePeerPacketConnect ex_env (ex_pm '''') ex_request = (resp, pm', sent)"
    by (cases "HandlePeerPacketConnect ex_env (ex_pm '''') ex_request")
  show ?thesis
    using duplicate_peer_rejected [OF h1 h2 h3 h4 h5, of bob] h5 unfolding r
    by (simp add: ex_request_def)
qed

subsection \<open>The healthcheck sweep\<close>

lemma delete_filter: "AList.delete k m = filter (\<lambda>(k', v). k' \<noteq> k) m"
  by (induction m) auto

lemma healthcheck_range_eq:
  "healthcheck_range c now es m =
     (filter (\<lambda>(k, v). k \<notin> fst ` set (filter (\<lambda>(k, v). expired c now v) es)) m,
      map (\<lambda>(k, v). CloseConn (Conn v)) (filter (\<lambda>(k, v). expired c now v) es))"
proof (induction es arbitrary: m)
  case Nil
  show ?case by simp
next
  case (Cons e es)
  obtain k v where e: "e = (k, v)" by (cases e)
  show ?case
  proof (cases "expired c now v")
    case True
    have "filter (\<lambda>(k', v). k' \<notin> fst ` set (filter (\<lambda>(k, v). expired c now v) es))
            (filter (\<lambda>(k', v). k' \<noteq> k) m)
        = filter (\<lambda>(k', v). k' \<notin> fst ` set (filter (\<lambda>(k, v). expired c now v) (e # es))) m"
      unfolding e using True by (auto intro: filter_cong)
    then show ?thesis
      unfolding e using True Cons.IH [of "AList.delete k m"] by (simp add: delete_filter)
  next
    case False
    then show ?thesis unfolding e using Cons.IH [of m] by simp
  qed
qed

lemma sweep_self:
  assumes "distinct (map fst m)"
  shows "filter (\<lambda>(k, v). k \<notin> fst ` set (filter P m)) m = filter (\<lambda>e. \<not> P e) m"
proof (rule filter_cong [OF refl])
  fix e assume e: "e \<in> set m"
  obtain k v where kv: "e = (k, v)" by (cases e)
  have "k \<in> fst ` set (filter P m) \<longleftrightarrow> P (k, v)"
  proof
    assume "k \<in> fst ` set (filter P m)"
    then obtain v' where v': "(k, v') \<in> set m" "P (k, v')" by auto
    with assms e kv have "v' = v" by (meson eq_key_imp_eq_value)
    with v' show "P (k, v)" by simp
  next
    assume "P (k, v)"
    with e kv show "k \<in> fst ` set (filter P m)" by force
  qed
  then show "(case e of (k, v) \<Rightarrow> k \<notin> fst ` set (filter P m)) = (\<not> P e)"
    by (simp add: kv)
qed

lemma healthcheck_sweep:
  assumes "distinct (map fst (peersMap c))"
  shows "healthcheck_range c now (peersMap c) (peersMap c) =
     (filter (\<lambda>(k, v). \<not> expired c now v) (peersMap c),
      map (\<lambda>(k, v). CloseConn (Conn v)) (filter (\<lambda>(k, v). expired c now v) (peersMap c)))"
proof -
  have "filter (\<lambda>(k, v). k \<notin> fst ` set (filter (\<lambda>(k, v). expired c now v) (peersMap c))) (peersMap c)
      = filter (\<lambda>e. \<not> (case e of (k, v) \<Rightarrow> expired c now v)) (peersMap c)"
    using assms by (rule sweep_self)
  also have "\<dots> = filter (\<lambda>(k, v). \<not> expired c now v) (peersMap c)"
    by (rule filter_cong) auto
  finally show ?thesis by (simp add: healthcheck_range_eq)
qed

lemma map_of_filter_distinct:
  assumes "distinct (map fst m)"
  shows "map_of (filter (\<lambda>(k, v). Q v) m) k = Some v \<longleftrightarrow> map_of m k = Some v \<and> Q v"
  using assms
proof (induction m)
  case Nil
  show ?case by simp
next
  case (Cons e m)
  obtain k' v' where e: "e = (k', v')" by (cases e)
  from Cons.prems have d: "distinct (map fst m)" and nk: "k' \<notin> fst ` set m" by (auto simp: e)
  have nf: "map_of (filter (\<lambda>(k, v). Q v) m) k' = None"
    using nk by (auto simp: map_of_eq_None_iff)
  have nm: "map_of m k' = None" using nk by (simp add: map_of_eq_None_iff)
  show ?case
    unfolding e using Cons.IH [OF d] nf nm by (cases "k = k'") auto
qed

text \<open>
  C9. Handling one \<open>OP_PEER_HEALTHCHECK\<close> event, with \<open>now\<close> the reading of the clock
  during the sweep, closes the socket of exactly the contexts whose \<open>LastValidTime\<close> is
  older than twice the keepalive interval and removes exactly these from \<open>peersMap\<close>;
  every other context stays under its key with the same fields, and nothing else of the
  connection changes. Each tick of the healthcheck loop sends one such event and arms
  the timer again with half the keepalive interval plus one second.
\<close>

theorem healthcheck_sweep_exact:
  assumes "distinct (map fst (peersMap c))" and "Op e = OP_PEER_HEALTHCHECK"
  shows "(case handlePeerEvent c now e of (c', fx) \<Rightarrow>
            peersMap c' = filter (\<lambda>(k, v). \<not> expired c now v) (peersMap c)
          \<and> fx = map (\<lambda>(k, v). CloseConn (Conn v)) (filter (\<lambda>(k, v). expired c now v) (peersMap c))
          \<and> (\<forall>k v. map_of (peersMap c') k = Some v
                 \<longleftrightarrow> map_of (peersMap c) k = Some v \<and> \<not> expired c now v)
          \<and> c' = c\<lparr>peersMap := peersMap c'\<rparr>)
       \<and> healthcheckTimer (runPeersHealthcheck c)
            = Some (word_of_int (sint (peerKeepaliveInterval c) sdiv 2) + 1000000000)
       \<and> peerEvent (runPeersHealthcheck c)
            = peerEvent c @ [\<lparr>Op = OP_PEER_HEALTHCHECK, ev_Addr = None, ev_Conn = 0, ev_PeerID = []\<rparr>]"
proof -
  have h: "handlePeerEvent c now e =
      (c\<lparr>peersMap := filter (\<lambda>(k, v). \<not> expired c now v) (peersMap c)\<rparr>,
       map (\<lambda>(k, v). CloseConn (Conn v)) (filter (\<lambda>(k, v). expired c now v) (peersMap c)))"
    using assms(2)
    by (simp add: handlePeerEvent_def healthcheck_sweep [OF assms(1)]
        OP_PEER_HEALTHCHECK_def OP_PEER_DISCO1_def OP_PEER_DISCO2_def OP_PEER_CONFIRM_def)
  have m: "map_of (filter (\<lambda>(k, v). \<not> expired c now v) (peersMap c)) k = Some v
        \<longleftrightarrow> map_of (peersMap c) k = Some v \<and> \<not> expired c now v" for k v
    using assms(1) by (rule map_of_filter_distinct)
  show ?thesis
    unfolding h using m by (simp add: runPeersHealthcheck_def healthcheckPeriod_def Second_def)
qed

lemma ex_expired:
  "\<not> expired ex_conn now0 \<lparr>Addr = a, Conn = x, LastValidTime = T0, UpdateTime_ctx = 0\<rparr>"
  "expired ex_conn now0 \<lparr>Addr = a, Conn = x, LastValidTime = 0, UpdateTime_ctx = 0\<rparr>"
  by (simp_all add: expired_def ex_conn_def now0_def T0_def Since_def maxDuration_def minDuration_def)

theorem healthcheck_sweep_exact_witness:
  "peersMap (fst (handlePeerEvent ex_conn now0 ex_healthcheck)) = take 2 (peersMap ex_conn)
  \<and> snd (handlePeerEvent ex_conn now0 ex_healthcheck) = [CloseConn 5]
  \<and> healthcheckTimer (runPeersHealthcheck ex_conn) = Some 6000000000"
proof -
  have d: "distinct (map fst (peersMap ex_conn))" by (simp add: ex_conn_def)
  have o: "Op ex_healthcheck = OP_PEER_HEALTHCHECK" by (simp add: ex_healthcheck_def)
  obtain c' fx where r: "handlePeerEvent ex_conn now0 ex_healthcheck = (c', fx)"
    by (cases "handlePeerEvent ex_conn now0 ex_healthcheck")
  have k: "peerKeepaliveInterval ex_conn = 10000000000" by (simp add: ex_conn_def)
  have p: "peersMap ex_conn = [([98], \<lparr>Addr = Some \<lparr>IP = [10, 0, 0, 2], Port = 4000\<rparr>, Conn = 3,
                LastValidTime = T0, UpdateTime_ctx = 0\<rparr>),
        ([99], \<lparr>Addr = None, Conn = 4, LastValidTime = T0, UpdateTime_ctx = 0\<rparr>),
        ([100], \<lparr>Addr = Some \<lparr>IP = [10, 0, 0, 4], Port = 4000\<rparr>, Conn = 5,
                 LastValidTime = 0, UpdateTime_ctx = 0\<rparr>)]" by (simp add: ex_conn_def)
  show ?thesis
    using healthcheck_sweep_exact [OF d o, of now0] unfolding r k
    by (simp add: p ex_expired signed_divide_int_def)
qed

subsection \<open>Routing a write\<close>

lemma even_sint_twice: "even (sint (2 * k :: 64 word))"
proof -
  have "\<not> bit (2 * k :: 64 word) 0" by (simp add: bit_0)
  then have "\<not> bit (sint (2 * k :: 64 word)) 0" by (simp add: bit_sint_iff)
  then show ?thesis by (simp add: bit_0)
qed

lemma twice_below_max: "sint (2 * k :: 64 word) < maxDuration"
proof -
  have "sint (2 * k :: 64 word) < 2 ^ 63" using sint_lt [of "2 * k"] by simp
  moreover have "sint (2 * k :: 64 word) \<noteq> 2 ^ 63 - 1"
  proof
    assume "sint (2 * k :: 64 word) = 2 ^ 63 - 1"
    then have "odd (sint (2 * k :: 64 word))" by simp
    with even_sint_twice show False by blast
  qed
  ultimately show ?thesis by (simp add: maxDuration_def)
qed

lemma zero_time_expired:
  assumes "maxDuration < now"
  shows "\<not> Since now 0 \<le> sint (2 * k :: 64 word)"
proof -
  have "Since now 0 = maxDuration" using assms by (simp add: Since_def)
  then show ?thesis using twice_below_max [of k] by simp
qed

lemma set_delete_subset: "set (AList.delete k m) \<subseteq> set m"
  by (induction m) auto

lemma set_update_subset: "set (AList.update k v m) \<subseteq> insert (k, v) (set m)"
  by (induction m) auto

lemma handlePeerEvent_unconfirmed:
  assumes inv: "unconfirmed_without_addr (peersMap c)" and ev: "source_event e"
  shows "unconfirmed_without_addr (peersMap (fst (handlePeerEvent c now e)))"
proof -
  consider (d1) "Op e = OP_PEER_DISCO1"
    | (d2) "Op e \<noteq> OP_PEER_DISCO1" "Op e = OP_PEER_DISCO2"
    | (cf) "Op e \<noteq> OP_PEER_DISCO1" "Op e \<noteq> OP_PEER_DISCO2" "Op e = OP_PEER_CONFIRM"
    | (hc) "Op e \<noteq> OP_PEER_DISCO1" "Op e \<noteq> OP_PEER_DISCO2" "Op e \<noteq> OP_PEER_CONFIRM"
           "Op e = OP_PEER_HEALTHCHECK"
    | (no) "Op e \<noteq> OP_PEER_DISCO1" "Op e \<noteq> OP_PEER_DISCO2" "Op e \<noteq> OP_PEER_CONFIRM"
           "Op e \<noteq> OP_PEER_HEALTHCHECK"
    by blast
  then show ?thesis
  proof cases
    case d1
    show ?thesis
    proof (cases "map_of (peersMap c) (ev_PeerID e)")
      case None
      then have "peersMap (fst (handlePeerEvent c now e))
          = peersMap c @ [(ev_PeerID e, \<lparr>Addr = None, Conn = ev_Conn e, LastValidTime = 0, UpdateTime_ctx = 0\<rparr>)]"
        using d1 by (simp add: handlePeerEvent_def Let_def)
      then show ?thesis using inv by (auto simp: unconfirmed_without_addr_def)
    next
      case (Some peer)
      then have "peersMap (fst (handlePeerEvent c now e))
          = AList.delete (ev_PeerID e) (peersMap c)
            @ [(ev_PeerID e, \<lparr>Addr = Addr peer, Conn = ev_Conn e, LastValidTime = 0, UpdateTime_ctx = 0\<rparr>)]"
        using d1 by (simp add: handlePeerEvent_def Let_def)
      then show ?thesis
        using inv set_delete_subset [of "ev_PeerID e" "peersMap c"]
        by (auto simp: unconfirmed_without_addr_def)
    qed
  next
    case d2
    from ev d2 obtain a where a: "ev_Addr e = Some a" by (auto simp: source_event_def)
    show ?thesis
    proof (cases "map_of (peersMap c) (ev_PeerID e)")
      case None
      then show ?thesis using d2 inv by (simp add: handlePeerEvent_def)
    next
      case (Some peerCtx)
      then have "peersMap (fst (handlePeerEvent c now e))
          = AList.update (ev_PeerID e) (peerCtx\<lparr>Addr := Some a\<rparr>) (peersMap c)"
        using d2 a by (simp add: handlePeerEvent_def)
      then show ?thesis
        using inv set_update_subset [of "ev_PeerID e" "peerCtx\<lparr>Addr := Some a\<rparr>" "peersMap c"]
        by (auto simp: unconfirmed_without_addr_def)
    qed
  next
    case cf
    from ev cf obtain a where a: "ev_Addr e = Some a" by (auto simp: source_event_def)
    show ?thesis
    proof (cases "map_of (peersMap c) (ev_PeerID e)")
      case None
      then show ?thesis using cf inv by (simp add: handlePeerEvent_def)
    next
      case (Some peer)
      then have "peersMap (fst (handlePeerEvent c now e))
          = AList.update (ev_PeerID e) (peer\<lparr>LastValidTime := now, Addr := Some a\<rparr>) (peersMap c)"
        using cf a by (simp add: handlePeerEvent_def)
      then show ?thesis
        using inv set_update_subset [of "ev_PeerID e" "peer\<lparr>LastValidTime := now, Addr := Some a\<rparr>" "peersMap c"]
        by (auto simp: unconfirmed_without_addr_def)
    qed
  next
    case hc
    then have "peersMap (fst (handlePeerEvent c now e))
        = fst (healthcheck_range c now (peersMap c) (peersMap c))"
      by (simp add: handlePeerEvent_def split: prod.splits)
    then have "set (peersMap (fst (handlePeerEvent c now e))) \<subseteq> set (peersMap c)"
      by (auto simp: healthcheck_range_eq)
    then show ?thesis using inv by (auto simp: unconfirmed_without_addr_def)
  next
    case no
    then show ?thesis using inv by (simp add: handlePeerEvent_def)
  qed
qed

lemma runPeerEventEngine_unconfirmed:
  assumes "unconfirmed_without_addr (peersMap c)" and "\<forall>(t, e) \<in> set evs. source_event e"
  shows "unconfirmed_without_addr (peersMap (runPeerEventEngine c evs))"
  using assms
proof (induction evs arbitrary: c)
  case Nil
  then show ?case by simp
next
  case (Cons x evs)
  obtain t e where x: "x = (t, e)" by (cases x)
  from Cons.prems have e: "source_event e" and rest: "\<forall>(t, e) \<in> set evs. source_event e"
    by (auto simp: x)
  have "unconfirmed_without_addr (peersMap (fst (handlePeerEvent c t e)))"
    using Cons.prems(1) e by (rule handlePeerEvent_unconfirmed)
  then show ?case unfolding x using Cons.IH rest by simp
qed

text \<open>
  C1. After any sequence of events the code can send, handled from a state without peer
  contexts, and with the clock past the first 292 years after the zero instant: for a
  call \<open>WriteTo(p, addr)\<close> whose \<open>addr\<close> is a PeerID, if a peer context for the target
  exists and its \<open>LastValidTime\<close> is within twice the keepalive interval of now, the
  context holds an address and the payload is handed to the socket of that context with
  that address; otherwise one RELAY frame (control code 0, address length, address the
  target, payload \<open>p\<close>), every byte XORed with the session nonce, is written to the
  WebSocket.
\<close>

theorem WriteTo_decision:
  assumes start: "peersMap c0 = []"
    and evs: "\<forall>(t, e) \<in> set evs. source_event e"
    and clock: "maxDuration < now"
  shows "(\<forall>ctx. map_of (peersMap (runPeerEventEngine c0 evs)) tgt = Some ctx
            \<and> Since now (LastValidTime ctx)
                 \<le> sint (2 * peerKeepaliveInterval (runPeerEventEngine c0 evs))
          \<longrightarrow> (\<exists>a. Addr ctx = Some a
                 \<and> WriteTo (runPeerEventEngine c0 evs) now p (PeerAddr tgt)
                     = WriteToUDP (Conn ctx) a p))
       \<and> (\<not> (\<exists>ctx. map_of (peersMap (runPeerEventEngine c0 evs)) tgt = Some ctx
            \<and> Since now (LastValidTime ctx)
                 \<le> sint (2 * peerKeepaliveInterval (runPeerEventEngine c0 evs)))
          \<longrightarrow> WriteTo (runPeerEventEngine c0 evs) now p (PeerAddr tgt)
              = WriteMessage (map (\<lambda>v. v XOR conn_nonce (runPeerEventEngine c0 evs))
                                ([0, Len tgt] @ tgt @ p)))"
proof -
  let ?c = "runPeerEventEngine c0 evs"
  have "unconfirmed_without_addr (peersMap c0)"
    using start by (simp add: unconfirmed_without_addr_def)
  then have inv: "unconfirmed_without_addr (peersMap ?c)"
    using evs by (rule runPeerEventEngine_unconfirmed)
  have live: "\<exists>a. Addr ctx = Some a \<and> WriteTo ?c now p (PeerAddr tgt) = WriteToUDP (Conn ctx) a p"
    if m: "map_of (peersMap ?c) tgt = Some ctx"
      and l: "Since now (LastValidTime ctx) \<le> sint (2 * peerKeepaliveInterval ?c)" for ctx
  proof (cases "Addr ctx")
    case None
    from m have "(tgt, ctx) \<in> set (peersMap ?c)" by (rule map_of_SomeD)
    with inv None have "LastValidTime ctx = 0" by (auto simp: unconfirmed_without_addr_def)
    with l zero_time_expired [OF clock] show ?thesis by simp
  next
    case (Some a)
    then show ?thesis using m l by (simp add: WriteTo_def peerConnected_def writeToUDP_def)
  qed
  have relay: "WriteTo ?c now p (PeerAddr tgt)
      = WriteMessage (map (\<lambda>v. v XOR conn_nonce ?c) ([0, Len tgt] @ tgt @ p))"
    if "\<not> (\<exists>ctx. map_of (peersMap ?c) tgt = Some ctx
            \<and> Since now (LastValidTime ctx) \<le> sint (2 * peerKeepaliveInterval ?c))"
    using that by (auto simp: WriteTo_def peerConnected_def writeTo_eq split: option.splits)
  show ?thesis using live relay by blast
qed

lemma ex_run:
  "runPeerEventEngine ex_start ex_events =
     ex_start\<lparr>peersMap :=
        [([98], \<lparr>Addr = Some \<lparr>IP = [10, 0, 0, 2], Port = 4000\<rparr>, Conn = 3,
                 LastValidTime = T0, UpdateTime_ctx = 0\<rparr>),
         ([100], \<lparr>Addr = None, Conn = 5, LastValidTime = 0, UpdateTime_ctx = 0\<rparr>)],
       healthcheckTimer := Some 6000000000\<rparr>"
  by (simp add: ex_start_def ex_events_def handlePeerEvent_def healthcheckPeriod_def Second_def
      OP_PEER_DISCO1_def OP_PEER_DISCO2_def OP_PEER_CONFIRM_def OP_PEER_HEALTHCHECK_def
      signed_divide_int_def Let_def)

theorem WriteTo_decision_witness:
  "WriteTo (runPeerEventEngine ex_start ex_events) now0 [1, 2] (PeerAddr [98])
     = WriteToUDP 3 \<lparr>IP = [10, 0, 0, 2], Port = 4000\<rparr> [1, 2]
   \<and> WriteTo (runPeerEventEngine ex_start ex_events) now0 [1, 2] (PeerAddr [100])
     = WriteMessage [7, 6, 99, 6, 5]
   \<and> WriteTo (runPeerEventEngine ex_start ex_events) now0 [1, 2] (PeerAddr [99])
     = WriteMessage [7, 6, 100, 6, 5]"
proof -
  have h1: "peersMap ex_start = []" by (simp add: ex_start_def)
  have h2: "\<forall>(t, e) \<in> set ex_events. source_event e"
    by (simp add: ex_events_def source_event_def OP_PEER_DISCO1_def OP_PEER_DISCO2_def
        OP_PEER_CONFIRM_def)
  have h3: "maxDuration < now0" by (simp add: maxDuration_def now0_def T0_def)
  note t = WriteTo_decision [OF h1 h2 h3]
  have k: "sint (2 * peerKeepaliveInterval ex_start) = 20000000000"
    by (simp add: ex_start_def)
  have n: "conn_nonce ex_start = 7" by (simp add: ex_start_def)
  have 1: "WriteTo (runPeerEventEngine ex_start ex_events) now0 [1, 2] (PeerAddr [98])
     = WriteToUDP 3 \<lparr>IP = [10, 0, 0, 2], Port = 4000\<rparr> [1, 2]"
    using t [of "[98]" "[1, 2]", THEN conjunct1, rule_format,
        of "\<lparr>Addr = Some \<lparr>IP = [10, 0, 0, 2], Port = 4000\<rparr>, Conn = 3,
             LastValidTime = T0, UpdateTime_ctx = 0\<rparr>"]
    unfolding ex_run
    by (simp add: k now0_def T0_def Since_def maxDuration_def minDuration_def)
  have 2: "WriteTo (runPeerEventEngine ex_start ex_events) now0 [1, 2] (PeerAddr [100])
     = WriteMessage [7, 6, 99, 6, 5]"
    using t [of "[100]" "[1, 2]", THEN conjunct2] unfolding ex_run
    by (simp add: k n now0_def T0_def Since_def maxDuration_def minDuration_def Len_def)
  have 3: "WriteTo (runPeerEventEngine ex_start ex_events) now0 [1, 2] (PeerAddr [99])
     = WriteMessage [7, 6, 100, 6, 5]"
    using t [of "[99]" "[1, 2]", THEN conjunct2] unfolding ex_run
    by (simp add: k n Len_def)
  show ?thesis using 1 2 3 by simp
qed

subsection \<open>Datagrams from an unknown source\<close>






subsection \<open>Frames shorter than their advertised length\<close>
















end
